theory Spec2Isabelle
  imports Complex_Main
begin

section \<open>Text\<close>

text \<open>
  A JavaScript string is modelled as a \<^typ>\<open>string\<close>; a character outside ASCII
  stands as its UTF-8 bytes. The patterns and literals of the controller are ASCII, and
  no byte of a multi-byte UTF-8 sequence is an ASCII character, so matching them on the
  bytes finds what matching on the UTF-16 code units finds.
\<close>

definition is_digit :: "char \<Rightarrow> bool" where
  "is_digit c = (c \<in> set ''0123456789'')"

definition digit_val :: "char \<Rightarrow> nat" where
  "digit_val c = of_char c - 48"

text \<open>The value of a run of decimal digits, most significant first.\<close>

definition digits_val :: "string \<Rightarrow> nat" where
  "digits_val ds = foldl (\<lambda>a c. 10 * a + digit_val c) 0 ds"


section \<open>parseSummaryForPercentage\<close>

text \<open>
  \<^verbatim>\<open>summary.match(/(\d+)% off/)\<close>: the regular expression is tried at every start
  position from the left; at a position, \<^verbatim>\<open>\d+\<close> first takes the longest run of digits and
  gives digits back one at a time (never all of them) until the literal \<^verbatim>\<open>% off\<close>
  follows. The result is the text of capture group 1.
\<close>

fun backtrack :: "nat \<Rightarrow> string \<Rightarrow> string option" where
  "backtrack 0 s = None"
| "backtrack (Suc k) s =
     (if take 5 (drop (Suc k) s) = ''% off'' then Some (take (Suc k) s) else backtrack k s)"

definition match_here :: "string \<Rightarrow> string option" where
  "match_here s = backtrack (length (takeWhile is_digit s)) s"

fun regex_match :: "string \<Rightarrow> string option" where
  "regex_match [] = match_here []"
| "regex_match (c # cs) =
     (case match_here (c # cs) of Some g \<Rightarrow> Some g | None \<Rightarrow> regex_match cs)"

text \<open>
  \<^verbatim>\<open>parseInt(percentageMatch[1], 10)\<close>. The argument is the capture of \<^verbatim>\<open>(\d+)\<close>, a
  non-empty run of decimal digits, so \<^verbatim>\<open>parseInt\<close> reads all of it as a decimal numeral;
  its white space, sign and not-a-number branches are not reached. The result is an
  integer of unbounded size (the rounding of a numeral beyond 2^53 to a double is not
  modelled).
\<close>

definition parseInt10 :: "string \<Rightarrow> int" where
  "parseInt10 g = int (digits_val (takeWhile is_digit g))"

definition parseSummaryForPercentage :: "string \<Rightarrow> int" where
  "parseSummaryForPercentage summary =
     (let discountPercentage = 0;
          percentageMatch = regex_match summary
      in case percentageMatch of
           Some g \<Rightarrow> parseInt10 g
         | None \<Rightarrow> discountPercentage)"


section \<open>Numbers\<close>

text \<open>
  A JavaScript number is NaN, one of the two infinities or a finite value, taken here
  as a real number: the rounding of IEEE doubles and the sign of zero are not modelled.
  The operations are those the controllers use: \<^verbatim>\<open>*\<close>, \<^verbatim>\<open>/\<close>, \<^verbatim>\<open>>\<close>, the \<^verbatim>\<open>$lte\<close> of a query
  and \<^verbatim>\<open>Math.max\<close> of two arguments.
\<close>

datatype jsnum = NaN | Num real | Infinity | NegInfinity

definition isNaN :: "jsnum \<Rightarrow> bool" where
  "isNaN n = (case n of NaN \<Rightarrow> True | _ \<Rightarrow> False)"

fun js_neg :: "jsnum \<Rightarrow> jsnum" where
  "js_neg NaN = NaN"
| "js_neg (Num a) = Num (- a)"
| "js_neg Infinity = NegInfinity"
| "js_neg NegInfinity = Infinity"

fun js_mul :: "jsnum \<Rightarrow> jsnum \<Rightarrow> jsnum" where
  "js_mul (Num a) (Num b) = Num (a * b)"
| "js_mul (Num a) Infinity = (if a = 0 then NaN else if 0 < a then Infinity else NegInfinity)"
| "js_mul (Num a) NegInfinity = (if a = 0 then NaN else if 0 < a then NegInfinity else Infinity)"
| "js_mul Infinity (Num b) = (if b = 0 then NaN else if 0 < b then Infinity else NegInfinity)"
| "js_mul NegInfinity (Num b) = (if b = 0 then NaN else if 0 < b then NegInfinity else Infinity)"
| "js_mul Infinity Infinity = Infinity"
| "js_mul Infinity NegInfinity = NegInfinity"
| "js_mul NegInfinity Infinity = NegInfinity"
| "js_mul NegInfinity NegInfinity = Infinity"
| "js_mul NaN _ = NaN"
| "js_mul _ NaN = NaN"

fun js_div :: "jsnum \<Rightarrow> jsnum \<Rightarrow> jsnum" where
  "js_div (Num a) (Num b) =
     (if b = 0 then (if a = 0 then NaN else if 0 < a then Infinity else NegInfinity)
      else Num (a / b))"
| "js_div (Num a) Infinity = Num 0"
| "js_div (Num a) NegInfinity = Num 0"
| "js_div Infinity (Num b) = (if 0 \<le> b then Infinity else NegInfinity)"
| "js_div NegInfinity (Num b) = (if 0 \<le> b then NegInfinity else Infinity)"
| "js_div Infinity Infinity = NaN"
| "js_div Infinity NegInfinity = NaN"
| "js_div NegInfinity Infinity = NaN"
| "js_div NegInfinity NegInfinity = NaN"
| "js_div NaN _ = NaN"
| "js_div _ NaN = NaN"

fun js_gt :: "jsnum \<Rightarrow> jsnum \<Rightarrow> bool" where
  "js_gt (Num a) (Num b) = (b < a)"
| "js_gt (Num a) NegInfinity = True"
| "js_gt Infinity (Num b) = True"
| "js_gt Infinity NegInfinity = True"
| "js_gt _ _ = False"

fun js_lte :: "jsnum \<Rightarrow> jsnum \<Rightarrow> bool" where
  "js_lte (Num a) (Num b) = (a \<le> b)"
| "js_lte (Num a) Infinity = True"
| "js_lte NegInfinity (Num b) = True"
| "js_lte NegInfinity NegInfinity = True"
| "js_lte NegInfinity Infinity = True"
| "js_lte Infinity Infinity = True"
| "js_lte _ _ = False"

definition Math_max :: "jsnum \<Rightarrow> jsnum \<Rightarrow> jsnum" where
  "Math_max a b = (if isNaN a \<or> isNaN b then NaN else if js_gt b a then b else a)"

section \<open>Number(string)\<close>

text \<open>
  \<^verbatim>\<open>Number(v)\<close> for a query parameter: NaN for \<^verbatim>\<open>undefined\<close>, and for a string the
  numeric value by the grammar of string numeric literals: white space and line
  terminators are trimmed at both ends, the empty text is 0, then a literal with
  prefix \<^verbatim>\<open>0x\<close>, \<^verbatim>\<open>0o\<close> or \<^verbatim>\<open>0b\<close>, or an optional sign before \<^verbatim>\<open>Infinity\<close> or a decimal
  with optional fraction and exponent; anything else is NaN.
\<close>

definition white_space :: "string list" where
  "white_space =
     [[CHR 0x09], [CHR 0x0A], [CHR 0x0B], [CHR 0x0C], [CHR 0x0D], [CHR 0x20],
      [CHR 0xC2, CHR 0xA0], [CHR 0xE1, CHR 0x9A, CHR 0x80],
      [CHR 0xE2, CHR 0x80, CHR 0x80], [CHR 0xE2, CHR 0x80, CHR 0x81],
      [CHR 0xE2, CHR 0x80, CHR 0x82], [CHR 0xE2, CHR 0x80, CHR 0x83],
      [CHR 0xE2, CHR 0x80, CHR 0x84], [CHR 0xE2, CHR 0x80, CHR 0x85],
      [CHR 0xE2, CHR 0x80, CHR 0x86], [CHR 0xE2, CHR 0x80, CHR 0x87],
      [CHR 0xE2, CHR 0x80, CHR 0x88], [CHR 0xE2, CHR 0x80, CHR 0x89],
      [CHR 0xE2, CHR 0x80, CHR 0x8A], [CHR 0xE2, CHR 0x80, CHR 0xA8],
      [CHR 0xE2, CHR 0x80, CHR 0xA9], [CHR 0xE2, CHR 0x80, CHR 0xAF],
      [CHR 0xE2, CHR 0x81, CHR 0x9F], [CHR 0xE3, CHR 0x80, CHR 0x80],
      [CHR 0xEF, CHR 0xBB, CHR 0xBF]]"

definition ws_prefix :: "string list \<Rightarrow> string \<Rightarrow> nat" where
  "ws_prefix ws s = (case find (\<lambda>w. take (length w) s = w) ws of None \<Rightarrow> 0 | Some w \<Rightarrow> length w)"

function strip_left :: "string list \<Rightarrow> string \<Rightarrow> string" where
  "strip_left ws s =
     (if 0 < ws_prefix ws s \<and> s \<noteq> [] then strip_left ws (drop (ws_prefix ws s) s) else s)"
  by pat_completeness auto
termination
  by (relation "measure (\<lambda>(ws, s). length s)") auto

declare strip_left.simps [simp del]

definition trim :: "string \<Rightarrow> string" where
  "trim s = rev (strip_left (map rev white_space) (rev (strip_left white_space s)))"

definition is_hex :: "char \<Rightarrow> bool" where
  "is_hex c = (c \<in> set ''0123456789abcdefABCDEF'')"

definition hex_val :: "char \<Rightarrow> nat" where
  "hex_val c = (if is_digit c then of_char c - 48
                else if c \<in> set ''abcdef'' then of_char c - 87 else of_char c - 55)"

definition radix_val :: "nat \<Rightarrow> string \<Rightarrow> nat" where
  "radix_val r ds = foldl (\<lambda>a c. r * a + hex_val c) 0 ds"

definition non_decimal :: "string \<Rightarrow> jsnum option" where
  "non_decimal t =
     (case t of
        z # x # ds \<Rightarrow>
          if z = CHR ''0'' \<and> x \<in> set ''xX'' then
            Some (if ds \<noteq> [] \<and> list_all is_hex ds then Num (real (radix_val 16 ds)) else NaN)
          else if z = CHR ''0'' \<and> x \<in> set ''oO'' then
            Some (if ds \<noteq> [] \<and> list_all (\<lambda>c. c \<in> set ''01234567'') ds
                  then Num (real (radix_val 8 ds)) else NaN)
          else if z = CHR ''0'' \<and> x \<in> set ''bB'' then
            Some (if ds \<noteq> [] \<and> list_all (\<lambda>c. c \<in> set ''01'') ds
                  then Num (real (radix_val 2 ds)) else NaN)
          else None
      | _ \<Rightarrow> None)"

definition exponent_part :: "string \<Rightarrow> int option" where
  "exponent_part r =
     (case r of
        [] \<Rightarrow> Some 0
      | e # r1 \<Rightarrow>
          if e \<in> set ''eE'' then
            (case r1 of
               [] \<Rightarrow> None
             | sg # r2 \<Rightarrow>
                 if sg = CHR ''+'' then
                   (if r2 \<noteq> [] \<and> list_all is_digit r2 then Some (int (digits_val r2)) else None)
                 else if sg = CHR ''-'' then
                   (if r2 \<noteq> [] \<and> list_all is_digit r2 then Some (- int (digits_val r2)) else None)
                 else (if list_all is_digit r1 then Some (int (digits_val r1)) else None))
          else None)"

definition scale10 :: "real \<Rightarrow> int \<Rightarrow> real" where
  "scale10 m e = (if 0 \<le> e then m * 10 ^ nat e else m / 10 ^ nat (- e))"

definition unsigned_decimal :: "string \<Rightarrow> jsnum" where
  "unsigned_decimal t =
     (if t = ''Infinity'' then Infinity
      else
        let ip = takeWhile is_digit t;
            r1 = dropWhile is_digit t;
            fp = (case r1 of [] \<Rightarrow> [] | c # r \<Rightarrow> if c = CHR ''.'' then takeWhile is_digit r else []);
            r2 = (case r1 of [] \<Rightarrow> [] | c # r \<Rightarrow> if c = CHR ''.'' then dropWhile is_digit r else r1)
        in if ip = [] \<and> fp = [] then NaN
           else (case exponent_part r2 of
                   None \<Rightarrow> NaN
                 | Some e \<Rightarrow>
                     Num (scale10 (real (digits_val ip) + real (digits_val fp) / 10 ^ length fp) e)))"

definition string_to_number :: "string \<Rightarrow> jsnum" where
  "string_to_number s =
     (let t = trim s
      in if t = [] then Num 0
         else (case non_decimal t of
                 Some n \<Rightarrow> n
               | None \<Rightarrow>
                   (case t of
                      [] \<Rightarrow> Num 0
                    | c # r \<Rightarrow>
                        if c = CHR ''+'' then unsigned_decimal r
                        else if c = CHR ''-'' then js_neg (unsigned_decimal r)
                        else unsigned_decimal t)))"

definition Number :: "string option \<Rightarrow> jsnum" where
  "Number v = (case v of None \<Rightarrow> NaN | Some s \<Rightarrow> string_to_number s)"

section \<open>The vendor payload\<close>

text \<open>
  The request body is JSON. Every field the controller reads is modelled with the type
  the vendor payload gives it, wrapped in \<open>option\<close>: \<open>None\<close> stands for a field that is
  absent or \<^verbatim>\<open>null\<close> (the controller treats the two alike wherever it reads one). Values
  of another JSON type than the documented one are outside the model.
\<close>

record txn_limits =
  min_txn_value :: "real option"
  max_discount_per_txn :: "real option"

record details =
  adjustment_id :: "string option"
  title :: "string option"
  summary :: "string option"
  adjustment_type :: "string option"
  adjustment_sub_type :: "string option"
  offer_txn_limits :: "txn_limits option"

record adjustment =
  offer_details :: "details option"

record contributors =
  payment_instrument :: "string list option"
  banks :: "string list option"

record section_offer =
  adjustment_id :: "string option"
  contributors :: "contributors option"

text \<open>\<open>offers\<close> is \<open>None\<close> when the section has no \<^verbatim>\<open>offers\<close> array.\<close>

record offer_section =
  offers :: "section_offer list option"

record adjustments =
  adjustment_list :: "adjustment list option"

record option_entry =
  adjustments :: "adjustments option"

text \<open>
  \<open>offer_sections\<close> lists the values of the sections in the order \<^verbatim>\<open>for ... in\<close>
  enumerates their keys; a section that is \<^verbatim>\<open>null\<close> is \<open>None\<close>.
\<close>

record api_data =
  offer_sections :: "offer_section option list option"
  adjustment_list :: "adjustment list option"
  options :: "option_entry list option"

text \<open>The envelope: the data itself, or an object that holds it under \<^verbatim>\<open>RESPONSE\<close>.\<close>

record api_response = api_data +
  RESPONSE :: "api_data option"

record request_body =
  flipkartOfferApiResponse :: "api_response option"

text \<open>
  The query string of the discount query: each parameter is a string, or \<open>None\<close> when it is absent.
\<close>

record query_params =
  amountToPay :: "string option"
  bankName :: "string option"
  paymentInstrument :: "string option"

section \<open>The Offer model\<close>

record instrument_entry =
  paymentInstrument :: string
  banks :: "string list"

record offer =
  adjustmentId :: string
  title :: "string option"
  description :: string
  type :: "string option"
  paymentInstruments :: "instrument_entry list"
  minTrxnValue :: real
  maxDiscount :: real
  discountPercentage :: int

section \<open>Errors and responses\<close>

datatype error = TypeError | ValidationError | DuplicateKey

datatype json_body =
    Counts nat nat
  | Message string
  | ErrorMessage string error
  | HighestDiscountAmount jsnum

record response =
  status :: nat
  json :: json_body

section \<open>The store\<close>

text \<open>
  The collection is the list of its documents in insertion order. A query is the list of
  the conditions of the filter object; a document is found when it meets all of them.
  A condition on \<^verbatim>\<open>paymentInstruments.banks\<close> or \<^verbatim>\<open>paymentInstruments.paymentInstrument\<close>
  holds when some element of the array meets it.
\<close>

datatype condition =
    AdjustmentId_in "string list"
  | PaymentInstruments_banks string
  | MinTrxnValue_lte jsnum
  | PaymentInstruments_paymentInstrument string

fun holds :: "offer \<Rightarrow> condition \<Rightarrow> bool" where
  "holds d (AdjustmentId_in ids) = (adjustmentId d \<in> set ids)"
| "holds d (PaymentInstruments_banks b) =
     list_ex (\<lambda>e. b \<in> set (instrument_entry.banks e)) (paymentInstruments d)"
| "holds d (MinTrxnValue_lte n) = js_lte (Num (minTrxnValue d)) n"
| "holds d (PaymentInstruments_paymentInstrument p) =
     list_ex (\<lambda>e. paymentInstrument e = p) (paymentInstruments d)"

definition Offer_find :: "condition list \<Rightarrow> offer list \<Rightarrow> offer list" where
  "Offer_find query docs = filter (\<lambda>d. list_all (holds d) query) docs"

text \<open>
  The schema: \<^verbatim>\<open>required: true\<close> on the string paths adjustmentId, title, description
  and type. The validator of a required string rejects a missing value and the empty
  string.
\<close>

definition truthy :: "string option \<Rightarrow> bool" where
  "truthy v = (case v of None \<Rightarrow> False | Some s \<Rightarrow> s \<noteq> [])"

definition validates :: "offer \<Rightarrow> bool" where
  "validates d =
     (adjustmentId d \<noteq> [] \<and> truthy (offer.title d) \<and> description d \<noteq> [] \<and> truthy (type d))"

text \<open>
  The unique index on adjustmentId, under an ordered bulk insert: the documents are
  written one after the other, and the first one whose adjustmentId is already in the
  collection stops the insert with a duplicate-key error; the documents written before
  it stay, the rest are not written.
\<close>

fun insert_ordered :: "offer list \<Rightarrow> offer list \<Rightarrow> (error + unit) \<times> offer list" where
  "insert_ordered docs [] = (Inr (), docs)"
| "insert_ordered docs (d # ds) =
     (if adjustmentId d \<in> adjustmentId ` set docs then (Inl DuplicateKey, docs)
      else insert_ordered (docs @ [d]) ds)"

text \<open>
  \<^verbatim>\<open>Offer.insertMany\<close>: every document of the batch is validated first, and one that
  fails rejects the call before anything is written.
\<close>

definition Offer_insertMany :: "offer list \<Rightarrow> offer list \<Rightarrow> (error + unit) \<times> offer list" where
  "Offer_insertMany new docs =
     (if list_all validates new then insert_ordered docs new else (Inl ValidationError, docs))"

datatype store_call = Find "condition list" | InsertMany "offer list"

section \<open>createOffers\<close>

type_synonym contributors_map = "string \<rightharpoonup> contributors"

text \<open>
  Step 1 (lines 38 to 49). The body of the inner loop: \<^verbatim>\<open>contributorsMap.set\<close> when
  both fields are truthy.
\<close>

definition set_offer :: "contributors_map \<Rightarrow> section_offer \<Rightarrow> contributors_map" where
  "set_offer m offer =
     (case section_offer.adjustment_id offer of
        None \<Rightarrow> m
      | Some k \<Rightarrow>
          if k = [] then m
          else (case section_offer.contributors offer of
                  None \<Rightarrow> m
                | Some c \<Rightarrow> m(k \<mapsto> c)))"

definition set_section :: "contributors_map \<Rightarrow> offer_section option \<Rightarrow> contributors_map" where
  "set_section m section =
     (case section of
        None \<Rightarrow> m
      | Some s \<Rightarrow> (case offers s of None \<Rightarrow> m | Some os \<Rightarrow> foldl set_offer m os))"

definition contributorsMap :: "api_data \<Rightarrow> contributors_map" where
  "contributorsMap apiData =
     (let offerSections = (case offer_sections apiData of None \<Rightarrow> [] | Some ss \<Rightarrow> ss)
      in foldl set_section Map.empty offerSections)"

definition apiData_of :: "api_response \<Rightarrow> api_data" where
  "apiData_of r = (case RESPONSE r of Some d \<Rightarrow> d | None \<Rightarrow> api_data.truncate r)"

text \<open>
  Step 2 (line 53):
  \<^verbatim>\<open>apiData.adjustment_list || apiData.options?.[0]?.adjustments?.adjustment_list || []\<close>.
  An array is truthy even when it is empty.
\<close>

definition adjustmentList :: "api_data \<Rightarrow> adjustment list" where
  "adjustmentList apiData =
     (case api_data.adjustment_list apiData of
        Some l \<Rightarrow> l
      | None \<Rightarrow>
          (case options apiData of
             None \<Rightarrow> []
           | Some [] \<Rightarrow> []
           | Some (e # _) \<Rightarrow>
               (case adjustments e of
                  None \<Rightarrow> []
                | Some a \<Rightarrow> (case adjustments.adjustment_list a of None \<Rightarrow> [] | Some l \<Rightarrow> l))))"

text \<open>Step 3 (lines 56 to 91). The first \<^verbatim>\<open>filter\<close> of the chain (line 58).\<close>

definition applicable :: "adjustment \<Rightarrow> bool" where
  "applicable adj =
     (case offer_details adj of
        None \<Rightarrow> False
      | Some d \<Rightarrow> adjustment_sub_type d \<noteq> Some ''EMI_FULL_INTEREST_WAIVER'')"

text \<open>\<^verbatim>\<open>x || 0\<close> on a number that may be missing.\<close>

definition or_zero :: "real option \<Rightarrow> real" where
  "or_zero x = (case x of None \<Rightarrow> 0 | Some v \<Rightarrow> if v \<noteq> 0 then v else 0)"

text \<open>
  The callback of \<^verbatim>\<open>map\<close> (lines 59 to 90). \<open>Inr None\<close> is its \<^verbatim>\<open>null\<close>; \<open>Inl TypeError\<close> is the
  exception of a method call on \<^verbatim>\<open>undefined\<close>: \<^verbatim>\<open>summary.match\<close> when the summary is
  missing, \<^verbatim>\<open>contributors.payment_instrument.map\<close> when the list is missing,
  \<^verbatim>\<open>details.adjustment_id\<close> when the details are missing.
\<close>

definition to_offer :: "contributors_map \<Rightarrow> adjustment \<Rightarrow> error + offer option" where
  "to_offer cmap adj =
     (case offer_details adj of
        None \<Rightarrow> Inl TypeError
      | Some details \<Rightarrow>
          (case (case details.adjustment_id details of None \<Rightarrow> None | Some k \<Rightarrow> cmap k) of
             None \<Rightarrow> Inr None
           | Some contributors' \<Rightarrow>
               (case summary details of
                  None \<Rightarrow> Inl TypeError
                | Some text \<Rightarrow>
                    let discountPercentage = parseSummaryForPercentage text;
                        minTrxnValue =
                          or_zero (case offer_txn_limits details of
                                     None \<Rightarrow> None | Some l \<Rightarrow> min_txn_value l) / 100;
                        maxDiscount =
                          or_zero (case offer_txn_limits details of
                                     None \<Rightarrow> None | Some l \<Rightarrow> max_discount_per_txn l) / 100
                    in (case payment_instrument contributors' of
                          None \<Rightarrow> Inl TypeError
                        | Some instruments \<Rightarrow>
                            Inr (Some
                              \<lparr> adjustmentId =
                                   (case details.adjustment_id details of None \<Rightarrow> [] | Some k \<Rightarrow> k),
                                 title = details.title details,
                                 description = text,
                                 type = adjustment_type details,
                                 paymentInstruments =
                                   map (\<lambda>instrument.
                                          \<lparr> paymentInstrument = instrument,
                                            banks = (case contributors.banks contributors' of
                                                       None \<Rightarrow> [] | Some bs \<Rightarrow> bs) \<rparr>)
                                       instruments,
                                 minTrxnValue = minTrxnValue,
                                 maxDiscount = maxDiscount,
                                 discountPercentage = discountPercentage \<rparr>)))))"

text \<open>\<^verbatim>\<open>Array.prototype.map\<close> with a callback that may throw: the first exception ends it.\<close>

fun map_throwing :: "('a \<Rightarrow> error + 'b) \<Rightarrow> 'a list \<Rightarrow> error + 'b list" where
  "map_throwing f [] = Inr []"
| "map_throwing f (x # xs) =
     (case f x of
        Inl e \<Rightarrow> Inl e
      | Inr y \<Rightarrow> (case map_throwing f xs of Inl e \<Rightarrow> Inl e | Inr ys \<Rightarrow> Inr (y # ys)))"

definition offersToProcess :: "contributors_map \<Rightarrow> adjustment list \<Rightarrow> error + offer list" where
  "offersToProcess cmap adjs =
     (case map_throwing (to_offer cmap) (filter applicable adjs) of
        Inl e \<Rightarrow> Inl e
      | Inr os \<Rightarrow> Inr (List.map_filter id os))"

record outcome =
  sent :: response
  stored :: "offer list"
  calls :: "store_call list"

definition server_error :: "string \<Rightarrow> error \<Rightarrow> response" where
  "server_error m e = \<lparr> status = 500, json = ErrorMessage m e \<rparr>"

text \<open>
  Step 4 of the controller (lines 103 to 107), up to the list to insert: the candidates whose adjustmentId
  no document found by the read has.
\<close>

definition newOffersToCreate :: "offer list \<Rightarrow> offer list \<Rightarrow> offer list" where
  "newOffersToCreate candidates docs =
     (let adjustmentIds = map adjustmentId candidates;
          existingOffers = Offer_find [AdjustmentId_in adjustmentIds] docs;
          existingIds = set (map adjustmentId existingOffers)
      in filter (\<lambda>c. adjustmentId c \<notin> existingIds) candidates)"

text \<open>
  The controller from the count of the candidates on (lines 93 to 122). Two calls reach the store, each
  behind an \<^verbatim>\<open>await\<close>; \<open>env\<close> is what other requests do to the collection between the
  read and the write. The outcome is the response, the collection afterwards and the
  calls made. An exception of the insert is caught by the handler of the controller.
\<close>

definition save_new :: "(offer list \<Rightarrow> offer list) \<Rightarrow> offer list \<Rightarrow> offer list \<Rightarrow> outcome" where
  "save_new env candidates docs =
     (let noOfOffersIdentified = length candidates
      in if noOfOffersIdentified = 0 then
           \<lparr> sent = \<lparr> status = 200, json = Counts 0 0 \<rparr>, stored = docs, calls = [] \<rparr>
         else
           let find = Find [AdjustmentId_in (map adjustmentId candidates)];
               new = newOffersToCreate candidates docs;
               docs1 = env docs
           in if 0 < length new then
                (case Offer_insertMany new docs1 of
                   (Inl e, docs2) \<Rightarrow>
                     \<lparr> sent = server_error ''Error creating offers'' e, stored = docs2,
                       calls = [find, InsertMany new] \<rparr>
                 | (Inr _, docs2) \<Rightarrow>
                     \<lparr> sent = \<lparr> status = 201,
                                json = Counts noOfOffersIdentified (length new) \<rparr>,
                       stored = docs2, calls = [find, InsertMany new] \<rparr>)
              else
                \<lparr> sent = \<lparr> status = 201, json = Counts noOfOffersIdentified (length new) \<rparr>,
                  stored = docs1, calls = [find] \<rparr>)"

text \<open>The controller: the envelope, the normalizer, then the store.\<close>

definition createOffers_with :: "(offer list \<Rightarrow> offer list) \<Rightarrow> request_body \<Rightarrow> offer list \<Rightarrow> outcome" where
  "createOffers_with env body docs =
     (case flipkartOfferApiResponse body of
        None \<Rightarrow>
          \<lparr> sent = \<lparr> status = 400, json = Message ''Missing flipkartOfferApiResponse in request body'' \<rparr>,
            stored = docs, calls = [] \<rparr>
      | Some r \<Rightarrow>
          let apiData = apiData_of r;
              cmap = contributorsMap apiData
          in (case offersToProcess cmap (adjustmentList apiData) of
                Inl e \<Rightarrow>
                  \<lparr> sent = server_error ''Error creating offers'' e, stored = docs, calls = [] \<rparr>
              | Inr candidates \<Rightarrow> save_new env candidates docs))"

text \<open>The controller when no other request touches the collection meanwhile.\<close>

definition createOffers :: "request_body \<Rightarrow> offer list \<Rightarrow> outcome" where
  "createOffers body docs = createOffers_with (\<lambda>d. d) body docs"

section \<open>getHighestDiscount\<close>

text \<open>The callback of \<^verbatim>\<open>reduce\<close> (lines 156 to 172), without the final \<^verbatim>\<open>Math.max\<close>.\<close>

definition currentDiscount :: "jsnum \<Rightarrow> offer \<Rightarrow> jsnum" where
  "currentDiscount numericAmountToPay offer =
     (if 0 < discountPercentage offer then
        (let d = js_div (js_mul numericAmountToPay (Num (of_int (discountPercentage offer))))
                   (Num 100)
         in if 0 < maxDiscount offer \<and> js_gt d (Num (maxDiscount offer))
            then Num (maxDiscount offer) else d)
      else if 0 < maxDiscount offer then Num (maxDiscount offer)
      else Num 0)"

definition getHighestDiscount :: "query_params \<Rightarrow> offer list \<Rightarrow> response" where
  "getHighestDiscount q docs =
     (let numericAmountToPay = Number (amountToPay q)
      in if isNaN numericAmountToPay \<or> \<not> truthy (bankName q) then
           \<lparr> status = 400,
             json = Message ''Invalid query parameters. `amountToPay` and `bankName` are required.'' \<rparr>
         else
           let query = [PaymentInstruments_banks (case bankName q of None \<Rightarrow> [] | Some b \<Rightarrow> b),
                        MinTrxnValue_lte numericAmountToPay]
                       @ (if truthy (query_params.paymentInstrument q)
                          then [PaymentInstruments_paymentInstrument
                                  (case query_params.paymentInstrument q of
                                     None \<Rightarrow> [] | Some p \<Rightarrow> p)]
                          else []);
               applicableOffers = Offer_find query docs;
               highestDiscountAmount =
                 foldl (\<lambda>maxCalculatedDiscount offer.
                          Math_max maxCalculatedDiscount (currentDiscount numericAmountToPay offer))
                   (Num 0) applicableOffers
           in \<lparr> status = 200, json = HighestDiscountAmount highestDiscountAmount \<rparr>)"

section \<open>The specification's terms\<close>

text \<open>
  The selection and the per-offer discount of the discount query as the specification
  words them, over real amounts, to be compared with what the controller computes.
  The instrument restricts the selection when it is supplied and not empty.
\<close>

definition spec_selected :: "real \<Rightarrow> string \<Rightarrow> string option \<Rightarrow> offer list \<Rightarrow> offer list" where
  "spec_selected a b p docs =
     filter (\<lambda>d. list_ex (\<lambda>e. b \<in> set (instrument_entry.banks e)) (paymentInstruments d)
                \<and> minTrxnValue d \<le> a
                \<and> (case p of
                      None \<Rightarrow> True
                    | Some i \<Rightarrow>
                        if i = [] then True
                        else list_ex (\<lambda>e. instrument_entry.paymentInstrument e = i)
                               (paymentInstruments d)))
       docs"

definition spec_discount :: "real \<Rightarrow> offer \<Rightarrow> real" where
  "spec_discount a d =
     (if 0 < discountPercentage d then
        (if 0 < maxDiscount d \<and> maxDiscount d < a * real_of_int (discountPercentage d) / 100
         then maxDiscount d
         else a * real_of_int (discountPercentage d) / 100)
      else if 0 < maxDiscount d then maxDiscount d
      else 0)"

text \<open>
  An adjustment the normalizer is to leave out: it lacks offer details, or its sub-type
  is the full-interest-waiver sentinel, or its adjustment_id has no entry in the
  correlation map.
\<close>

definition left_out :: "contributors_map \<Rightarrow> adjustment \<Rightarrow> bool" where
  "left_out cmap adj =
     (case offer_details adj of
        None \<Rightarrow> True
      | Some d \<Rightarrow>
          if adjustment_sub_type d = Some ''EMI_FULL_INTEREST_WAIVER'' then True
          else (case details.adjustment_id d of None \<Rightarrow> True | Some k \<Rightarrow> cmap k = None))"




section \<open>Example data\<close>

definition example_contributors :: contributors where
  "example_contributors = \<lparr> payment_instrument = Some [''CREDIT''], contributors.banks = Some [''IDFC''] \<rparr>"

definition example_section_offer :: "string \<Rightarrow> contributors \<Rightarrow> section_offer" where
  "example_section_offer k c = \<lparr> adjustment_id = Some k, contributors = Some c \<rparr>"

definition example_adjustment :: "string \<Rightarrow> string option \<Rightarrow> txn_limits option \<Rightarrow> adjustment" where
  "example_adjustment k s l =
     \<lparr> offer_details = Some
         \<lparr> details.adjustment_id = Some k, details.title = Some ''Bank Offer'', summary = s,
           adjustment_type = Some ''INSTANT_DISCOUNT'',
           adjustment_sub_type = Some ''INSTANT_DISCOUNT'', offer_txn_limits = l \<rparr> \<rparr>"

definition example_waiver :: "string \<Rightarrow> adjustment" where
  "example_waiver k =
     \<lparr> offer_details = Some
         \<lparr> details.adjustment_id = Some k, details.title = Some ''No Cost EMI'',
           summary = Some ''No Cost EMI'', adjustment_type = Some ''EMI'',
           adjustment_sub_type = Some ''EMI_FULL_INTEREST_WAIVER'', offer_txn_limits = None \<rparr> \<rparr>"

definition example_body :: "section_offer list \<Rightarrow> adjustment list \<Rightarrow> request_body" where
  "example_body sos adjs =
     \<lparr> flipkartOfferApiResponse = Some
         \<lparr> offer_sections = None, adjustment_list = None, options = None,
           RESPONSE = Some
             \<lparr> offer_sections = Some [Some \<lparr> offers = Some sos \<rparr>],
               adjustment_list = Some adjs, options = None \<rparr> \<rparr> \<rparr>"

definition example_offer :: "string \<Rightarrow> string \<Rightarrow> real \<Rightarrow> real \<Rightarrow> int \<Rightarrow> offer" where
  "example_offer k s mn mx pct =
     \<lparr> adjustmentId = k, title = Some ''Bank Offer'', description = s,
       type = Some ''INSTANT_DISCOUNT'',
       paymentInstruments = [\<lparr> paymentInstrument = ''CREDIT'', banks = [''IDFC''] \<rparr>],
       minTrxnValue = mn, maxDiscount = mx, discountPercentage = pct \<rparr>"

section \<open>Properties of the pattern search\<close>

















section \<open>Properties of the normalizer\<close>

lemma map_throwing_Inr:
  "map_throwing f xs = Inr ys \<Longrightarrow> list_all2 (\<lambda>x y. f x = Inr y) xs ys"
  by (induction xs arbitrary: ys) (auto split: sum.splits)

lemma map_throwing_append:
  "map_throwing f (xs @ ys) =
     (case map_throwing f xs of
        Inl e \<Rightarrow> Inl e
      | Inr us \<Rightarrow> (case map_throwing f ys of Inl e \<Rightarrow> Inl e | Inr vs \<Rightarrow> Inr (us @ vs)))"
  by (induction xs) (auto split: sum.splits)

lemma offersToProcess_source:
  assumes "offersToProcess cmap adjs = Inr os" "c \<in> set os"
  shows "\<exists>adj \<in> set adjs. applicable adj \<and> to_offer cmap adj = Inr (Some c)"
proof -
  from assms(1) obtain ys where ys: "map_throwing (to_offer cmap) (filter applicable adjs) = Inr ys"
    and os: "os = List.map_filter id ys"
    by (auto simp: offersToProcess_def split: sum.splits)
  from assms(2) os have "Some c \<in> set ys"
    by (auto simp: List.map_filter_def)
  moreover from ys have "list_all2 (\<lambda>x y. to_offer cmap x = Inr y) (filter applicable adjs) ys"
    by (rule map_throwing_Inr)
  ultimately obtain i where i: "i < length ys" "ys ! i = Some c"
    and len: "length (filter applicable adjs) = length ys"
    and all: "\<forall>i<length ys. to_offer cmap (filter applicable adjs ! i) = Inr (ys ! i)"
    by (auto simp: list_all2_conv_all_nth in_set_conv_nth)
  let ?adj = "filter applicable adjs ! i"
  have "?adj \<in> set (filter applicable adjs)" using i(1) len by (metis nth_mem)
  moreover have "to_offer cmap ?adj = Inr (Some c)" using all i by auto
  ultimately show ?thesis by auto
qed

lemma to_offer_Some:
  assumes "to_offer cmap adj = Inr (Some c)"
  shows "\<exists>d k cs sm ins.
           offer_details adj = Some d \<and> details.adjustment_id d = Some k \<and> cmap k = Some cs
           \<and> summary d = Some sm \<and> payment_instrument cs = Some ins
           \<and> adjustmentId c = k
           \<and> offer.title c = details.title d
           \<and> description c = sm
           \<and> type c = adjustment_type d
           \<and> paymentInstruments c =
               map (\<lambda>i. \<lparr> paymentInstrument = i,
                          banks = (case contributors.banks cs of None \<Rightarrow> [] | Some bs \<Rightarrow> bs) \<rparr>) ins
           \<and> minTrxnValue c =
               or_zero (case offer_txn_limits d of None \<Rightarrow> None | Some l \<Rightarrow> min_txn_value l) / 100
           \<and> maxDiscount c =
               or_zero (case offer_txn_limits d of None \<Rightarrow> None | Some l \<Rightarrow> max_discount_per_txn l) / 100
           \<and> discountPercentage c = parseSummaryForPercentage sm"
proof -
  from assms obtain d where d: "offer_details adj = Some d"
    by (cases "offer_details adj") (simp_all add: to_offer_def)
  from assms d obtain k where k: "details.adjustment_id d = Some k"
    by (cases "details.adjustment_id d") (simp_all add: to_offer_def)
  from assms d k obtain cs where cs: "cmap k = Some cs"
    by (cases "cmap k") (simp_all add: to_offer_def)
  from assms d k cs obtain sm where t: "summary d = Some sm"
    by (cases "summary d") (simp_all add: to_offer_def)
  from assms d k cs t obtain ins where i: "payment_instrument cs = Some ins"
    by (cases "payment_instrument cs") (simp_all add: to_offer_def Let_def)
  from assms d k cs t i have
    "c = \<lparr> adjustmentId = k, title = details.title d, description = sm,
           type = adjustment_type d,
           paymentInstruments =
             map (\<lambda>i. \<lparr> paymentInstrument = i,
                        banks = (case contributors.banks cs of None \<Rightarrow> [] | Some bs \<Rightarrow> bs) \<rparr>) ins,
           minTrxnValue =
             or_zero (case offer_txn_limits d of None \<Rightarrow> None | Some l \<Rightarrow> min_txn_value l) / 100,
           maxDiscount =
             or_zero (case offer_txn_limits d of None \<Rightarrow> None | Some l \<Rightarrow> max_discount_per_txn l) / 100,
           discountPercentage = parseSummaryForPercentage sm \<rparr>"
    by (simp add: to_offer_def Let_def)
  with d k cs t i show ?thesis by simp
qed

lemma pct5: "parseSummaryForPercentage ''5% off'' = 5"
  by (simp add: parseSummaryForPercentage_def match_here_def is_digit_def parseInt10_def
      digits_val_def digit_val_def)


lemma pct150: "parseSummaryForPercentage ''150% off'' = 150"
  by (simp add: parseSummaryForPercentage_def match_here_def is_digit_def parseInt10_def
      digits_val_def digit_val_def)

lemma example_apiData:
  "flipkartOfferApiResponse (example_body sos adjs) = Some r \<Longrightarrow>
     apiData_of r = \<lparr> offer_sections = Some [Some \<lparr> offers = Some sos \<rparr>],
                      adjustment_list = Some adjs, options = None \<rparr>"
  by (auto simp: example_body_def apiData_of_def)

lemma example_cmap:
  "contributorsMap \<lparr> offer_sections = Some [Some \<lparr> offers = Some [example_section_offer k c] \<rparr>],
                      adjustment_list = a, options = b \<rparr>
     = (if k = [] then Map.empty else [k \<mapsto> c])"
  by (simp add: contributorsMap_def set_section_def set_offer_def example_section_offer_def)

lemma example_adjustmentList:
  "adjustmentList \<lparr> offer_sections = s, adjustment_list = Some adjs, options = b \<rparr> = adjs"
  by (simp add: adjustmentList_def)

lemma example_applicable: "applicable (example_adjustment k s l)"
  by (simp add: applicable_def example_adjustment_def)

text \<open>
  Claim C7. For every ingestion whose normalization yields no candidate, the answer is
  status 200 with identified = 0 and created = 0, no call reaches the store, and the
  store is as it was.
\<close>

theorem C7_no_candidates:
  assumes "flipkartOfferApiResponse body = Some r"
    and "offersToProcess (contributorsMap (apiData_of r)) (adjustmentList (apiData_of r)) = Inr []"
  shows "createOffers_with env body docs =
           \<lparr> sent = \<lparr> status = 200, json = Counts 0 0 \<rparr>, stored = docs, calls = [] \<rparr>"
  using assms by (simp add: createOffers_with_def save_new_def)

text \<open>
  The theorem at a payload with an empty adjustment list, a store with one document
  and another request that would add a document.
\<close>

theorem C7_no_candidates_witness:
  "createOffers_with (\<lambda>d. d @ [example_offer ''B7'' ''5% off'' 0 0 5])
       (example_body [] [])
       [example_offer ''A1'' ''5% off'' 5000 750 5] =
     \<lparr> sent = \<lparr> status = 200, json = Counts 0 0 \<rparr>,
       stored = [example_offer ''A1'' ''5% off'' 5000 750 5], calls = [] \<rparr>"
proof -
  obtain r where r: "flipkartOfferApiResponse (example_body [] []) = Some r"
    by (simp add: example_body_def)
  have "offersToProcess (contributorsMap (apiData_of r)) (adjustmentList (apiData_of r)) = Inr []"
    by (simp add: example_apiData [OF r] example_adjustmentList offersToProcess_def
        List.map_filter_def)
  with r show ?thesis by (rule C7_no_candidates)
qed

text \<open>
  Claim C8. For every candidate the normalizer makes of an adjustment, minTrxnValue and
  maxDiscount are the vendor's min_txn_value and max_discount_per_txn divided by 100,
  and 0 when the field or offer_txn_limits is missing; min_txn_value = 500000 yields
  minTrxnValue = 5000.
\<close>

theorem C8_minor_to_major:
  "(to_offer cmap adj = Inr (Some c) \<and> offer_details adj = Some d \<longrightarrow>
      minTrxnValue c =
        (case offer_txn_limits d of
           None \<Rightarrow> 0
         | Some l \<Rightarrow> (case min_txn_value l of None \<Rightarrow> 0 | Some v \<Rightarrow> v / 100))
      \<and> maxDiscount c =
        (case offer_txn_limits d of
           None \<Rightarrow> 0
         | Some l \<Rightarrow> (case max_discount_per_txn l of None \<Rightarrow> 0 | Some v \<Rightarrow> v / 100)))
   \<and> (to_offer cmap adj = Inr (Some c) \<and> offer_details adj = Some d
        \<and> offer_txn_limits d = Some l \<and> min_txn_value l = Some 500000
      \<longrightarrow> minTrxnValue c = 5000)"
proof (intro conjI impI)
  assume a: "to_offer cmap adj = Inr (Some c) \<and> offer_details adj = Some d"
  then obtain d' where "offer_details adj = Some d'"
    and mn: "minTrxnValue c =
       or_zero (case offer_txn_limits d' of None \<Rightarrow> None | Some l \<Rightarrow> min_txn_value l) / 100"
    and mx: "maxDiscount c =
       or_zero (case offer_txn_limits d' of None \<Rightarrow> None | Some l \<Rightarrow> max_discount_per_txn l) / 100"
    using to_offer_Some [of cmap adj c] by auto
  with a have d': "d' = d" by simp
  show "minTrxnValue c =
        (case offer_txn_limits d of
           None \<Rightarrow> 0
         | Some l \<Rightarrow> (case min_txn_value l of None \<Rightarrow> 0 | Some v \<Rightarrow> v / 100))"
    using mn d' by (simp add: or_zero_def split: option.splits)
  show "maxDiscount c =
        (case offer_txn_limits d of
           None \<Rightarrow> 0
         | Some l \<Rightarrow> (case max_discount_per_txn l of None \<Rightarrow> 0 | Some v \<Rightarrow> v / 100))"
    using mx d' by (simp add: or_zero_def split: option.splits)
next
  assume a: "to_offer cmap adj = Inr (Some c) \<and> offer_details adj = Some d
        \<and> offer_txn_limits d = Some l \<and> min_txn_value l = Some 500000"
  then obtain d' where "offer_details adj = Some d'"
    and mn: "minTrxnValue c =
       or_zero (case offer_txn_limits d' of None \<Rightarrow> None | Some l \<Rightarrow> min_txn_value l) / 100"
    using to_offer_Some [of cmap adj c] by auto
  with a have "d' = d" by simp
  with mn a show "minTrxnValue c = 5000" by (simp add: or_zero_def)
qed

text \<open>
  The theorem at an adjustment with min_txn_value = 500000 and no
  max_discount_per_txn.
\<close>

theorem C8_minor_to_major_witness:
  "to_offer [''A1'' \<mapsto> example_contributors]
     (example_adjustment ''A1'' (Some ''5% off'')
        (Some \<lparr> min_txn_value = Some 500000, max_discount_per_txn = None \<rparr>))
     = Inr (Some (example_offer ''A1'' ''5% off'' 5000 0 5))
   \<and> minTrxnValue (example_offer ''A1'' ''5% off'' 5000 0 5) = 500000 / 100
   \<and> maxDiscount (example_offer ''A1'' ''5% off'' 5000 0 5) = 0"
proof -
  let ?l = "\<lparr> min_txn_value = Some 500000, max_discount_per_txn = None \<rparr>"
  let ?adj = "example_adjustment ''A1'' (Some ''5% off'') (Some ?l)"
  let ?c = "example_offer ''A1'' ''5% off'' 5000 0 5"
  have t: "to_offer [''A1'' \<mapsto> example_contributors] ?adj = Inr (Some ?c)"
    by (simp add: to_offer_def example_adjustment_def example_contributors_def example_offer_def
        or_zero_def pct5)
  obtain d where d: "offer_details ?adj = Some d" "offer_txn_limits d = Some ?l"
    by (simp add: example_adjustment_def)
  show ?thesis
    using C8_minor_to_major [of "[''A1'' \<mapsto> example_contributors]" ?adj ?c d ?l] t d
    by simp
qed

section \<open>Properties of the store\<close>

lemma insert_ordered_shape:
  "insert_ordered docs new = (r, docs2) \<Longrightarrow>
     (r = Inr () \<and> docs2 = docs @ new)
     \<or> (r = Inl DuplicateKey
         \<and> (\<exists>pre d post. new = pre @ d # post \<and> docs2 = docs @ pre
               \<and> adjustmentId d \<in> adjustmentId ` set (docs @ pre)))"
proof (induction new arbitrary: docs)
  case Nil
  then show ?case by simp
next
  case (Cons a new)
  show ?case
  proof (cases "adjustmentId a \<in> adjustmentId ` set docs")
    case True
    with Cons.prems have r: "r = Inl DuplicateKey" and d: "docs2 = docs" by simp_all
    have "a # new = [] @ a # new \<and> docs2 = docs @ []
          \<and> adjustmentId a \<in> adjustmentId ` set (docs @ [])"
      using True d by simp
    then have "\<exists>pre d post. a # new = pre @ d # post \<and> docs2 = docs @ pre
               \<and> adjustmentId d \<in> adjustmentId ` set (docs @ pre)"
      by (intro exI)
    with r show ?thesis by simp
  next
    case False
    with Cons.prems have "insert_ordered (docs @ [a]) new = (r, docs2)" by simp
    from Cons.IH [OF this] show ?thesis
    proof
      assume "r = Inr () \<and> docs2 = (docs @ [a]) @ new"
      then show ?thesis by simp
    next
      assume "r = Inl DuplicateKey
         \<and> (\<exists>pre d post. new = pre @ d # post \<and> docs2 = (docs @ [a]) @ pre
               \<and> adjustmentId d \<in> adjustmentId ` set ((docs @ [a]) @ pre))"
      then obtain pre d post where r: "r = Inl DuplicateKey" and n: "new = pre @ d # post"
        and d2: "docs2 = (docs @ [a]) @ pre"
        and dup: "adjustmentId d \<in> adjustmentId ` set ((docs @ [a]) @ pre)"
        by (elim conjE exE)
      have "a # new = (a # pre) @ d # post \<and> docs2 = docs @ (a # pre)
            \<and> adjustmentId d \<in> adjustmentId ` set (docs @ (a # pre))"
        using n d2 dup by simp
      then have "\<exists>pre d post. a # new = pre @ d # post \<and> docs2 = docs @ pre
               \<and> adjustmentId d \<in> adjustmentId ` set (docs @ pre)"
        by (intro exI)
      with r show ?thesis by simp
    qed
  qed
qed

lemma insert_ordered_subset:
  assumes "insert_ordered docs new = (r, docs2)"
  shows "set docs2 \<subseteq> set docs \<union> set new"
  using insert_ordered_shape [OF assms] by auto

lemma Offer_insertMany_subset:
  assumes "Offer_insertMany new docs = (r, docs2)"
  shows "set docs2 \<subseteq> set docs \<union> set new"
proof (cases "list_all validates new")
  case True
  with assms have "insert_ordered docs new = (r, docs2)" by (simp add: Offer_insertMany_def)
  then show ?thesis by (rule insert_ordered_subset)
next
  case False
  with assms show ?thesis by (auto simp: Offer_insertMany_def)
qed

lemma save_new_subset:
  "set (stored (save_new env cands docs)) \<subseteq> set docs \<union> set (env docs) \<union> set cands"
proof -
  obtain res docs2 where ins:
    "Offer_insertMany (newOffersToCreate cands docs) (env docs) = (res, docs2)"
    by (cases "Offer_insertMany (newOffersToCreate cands docs) (env docs)")
  have "set docs2 \<subseteq> set (env docs) \<union> set (newOffersToCreate cands docs)"
    using ins by (rule Offer_insertMany_subset)
  moreover have "set (newOffersToCreate cands docs) \<subseteq> set cands"
    by (auto simp: newOffersToCreate_def)
  ultimately have d2: "set docs2 \<subseteq> set (env docs) \<union> set cands" by blast
  show ?thesis
  proof (cases res)
    case (Inl e)
    with ins d2 show ?thesis by (auto simp: save_new_def Let_def)
  next
    case (Inr u)
    with ins d2 show ?thesis by (auto simp: save_new_def Let_def)
  qed
qed

lemma stored_from_candidates:
  assumes "c \<in> set (stored (createOffers_with env body docs))" "c \<notin> set docs" "c \<notin> set (env docs)"
  shows "\<exists>r cands. flipkartOfferApiResponse body = Some r
           \<and> offersToProcess (contributorsMap (apiData_of r)) (adjustmentList (apiData_of r)) = Inr cands
           \<and> c \<in> set cands"
proof (cases "flipkartOfferApiResponse body")
  case None
  with assms show ?thesis by (simp add: createOffers_with_def)
next
  case (Some r)
  show ?thesis
  proof (cases "offersToProcess (contributorsMap (apiData_of r)) (adjustmentList (apiData_of r))")
    case (Inl e)
    with Some assms show ?thesis by (simp add: createOffers_with_def Let_def)
  next
    case (Inr cands)
    with Some assms have "c \<in> set (stored (save_new env cands docs))"
      by (simp add: createOffers_with_def Let_def)
    with save_new_subset [of env cands docs] assms have "c \<in> set cands" by blast
    with Some Inr show ?thesis by simp
  qed
qed

lemma to_offer_left_out:
  assumes "left_out cmap adj" "applicable adj"
  shows "to_offer cmap adj = Inr None"
  using assms
  by (auto simp: left_out_def applicable_def to_offer_def split: option.splits if_splits)

lemma left_out_drop:
  assumes "left_out cmap adj"
  shows "offersToProcess cmap (xs @ adj # ys) = offersToProcess cmap (xs @ ys)"
proof (cases "applicable adj")
  case False
  then show ?thesis by (simp add: offersToProcess_def)
next
  case True
  with assms have n: "to_offer cmap adj = Inr None" by (rule to_offer_left_out)
  have "map_throwing (to_offer cmap) (adj # filter applicable ys) =
     (case map_throwing (to_offer cmap) (filter applicable ys) of
        Inl e \<Rightarrow> Inl e | Inr vs \<Rightarrow> Inr (None # vs))"
    using n by simp
  then show ?thesis
    using True
    by (simp add: offersToProcess_def map_throwing_append List.map_filter_def
        split: sum.splits)
qed

lemma not_left_out:
  assumes "to_offer cmap adj = Inr (Some c)" "applicable adj"
  shows "\<not> left_out cmap adj"
proof -
  from to_offer_Some [OF assms(1)] obtain d k cs where
    "offer_details adj = Some d" "details.adjustment_id d = Some k" "cmap k = Some cs"
    by blast
  with assms(2) show ?thesis by (simp add: left_out_def applicable_def)
qed

text \<open>
  Claim C3. An adjustment that lacks offer details, or whose adjustment_sub_type is
  the full-interest-waiver sentinel, or whose adjustment_id has no entry in the
  contributor map, is dropped and is no error: the normalizer gives the same result,
  candidates or exception, with the adjustment in the list as without it. And every
  record that an ingestion adds to the store is what the normalizer made of an
  adjustment of the payload that is none of these.
\<close>

theorem C3_only_correlated:
  "(left_out cmap adj \<longrightarrow>
      offersToProcess cmap (xs @ adj # ys) = offersToProcess cmap (xs @ ys))
   \<and> (c \<in> set (stored (createOffers_with env body docs)) \<and> c \<notin> set docs \<and> c \<notin> set (env docs)
      \<longrightarrow> (\<exists>r a. flipkartOfferApiResponse body = Some r
             \<and> a \<in> set (adjustmentList (apiData_of r))
             \<and> \<not> left_out (contributorsMap (apiData_of r)) a
             \<and> to_offer (contributorsMap (apiData_of r)) a = Inr (Some c)))"
proof (intro conjI impI)
  assume "left_out cmap adj"
  then show "offersToProcess cmap (xs @ adj # ys) = offersToProcess cmap (xs @ ys)"
    by (rule left_out_drop)
next
  assume a: "c \<in> set (stored (createOffers_with env body docs)) \<and> c \<notin> set docs \<and> c \<notin> set (env docs)"
  then obtain r cands where r: "flipkartOfferApiResponse body = Some r"
    and o: "offersToProcess (contributorsMap (apiData_of r)) (adjustmentList (apiData_of r)) = Inr cands"
    and c: "c \<in> set cands"
    using stored_from_candidates [of c env body docs] by blast
  from offersToProcess_source [OF o c] obtain a where
    "a \<in> set (adjustmentList (apiData_of r))" "applicable a"
    "to_offer (contributorsMap (apiData_of r)) a = Inr (Some c)"
    by blast
  with r not_left_out show
    "\<exists>r a. flipkartOfferApiResponse body = Some r
             \<and> a \<in> set (adjustmentList (apiData_of r))
             \<and> \<not> left_out (contributorsMap (apiData_of r)) a
             \<and> to_offer (contributorsMap (apiData_of r)) a = Inr (Some c)"
    by blast
qed

lemma example_to_offer_plain:
  "to_offer [k \<mapsto> example_contributors] (example_adjustment k (Some s) None)
     = Inr (Some (example_offer k s 0 0 (parseSummaryForPercentage s)))"
  by (simp add: to_offer_def example_adjustment_def example_contributors_def example_offer_def
      or_zero_def)

lemma example_waiver_left_out: "left_out cmap (example_waiver k)"
  by (simp add: left_out_def example_waiver_def)

lemma example_validates: "s \<noteq> [] \<Longrightarrow> k \<noteq> [] \<Longrightarrow> validates (example_offer k s mn mx p)"
  by (simp add: validates_def example_offer_def truthy_def)

lemma example_id: "adjustmentId (example_offer k s mn mx p) = k"
  by (simp add: example_offer_def)

lemma example_response:
  "flipkartOfferApiResponse (example_body sos adjs) =
     Some \<lparr> offer_sections = None, adjustment_list = None, options = None,
            RESPONSE = Some \<lparr> offer_sections = Some [Some \<lparr> offers = Some sos \<rparr>],
                               adjustment_list = Some adjs, options = None \<rparr> \<rparr>"
  by (simp add: example_body_def)

lemma example_createOffers:
  "createOffers_with env (example_body [example_section_offer ''A1'' c] adjs) docs =
     (case offersToProcess [''A1'' \<mapsto> c] adjs of
        Inl e \<Rightarrow> \<lparr> sent = server_error ''Error creating offers'' e, stored = docs, calls = [] \<rparr>
      | Inr candidates \<Rightarrow> save_new env candidates docs)"
  by (simp add: createOffers_with_def example_response apiData_of_def example_cmap
      example_adjustmentList)

text \<open>
  The theorem at a payload with a full-interest-waiver adjustment and a discount
  adjustment under the same adjustment_id: only the second is stored.
\<close>

theorem C3_only_correlated_witness:
  "left_out [''A1'' \<mapsto> example_contributors] (example_waiver ''A1'')
   \<and> offersToProcess [''A1'' \<mapsto> example_contributors]
        [example_waiver ''A1'', example_adjustment ''A1'' (Some ''5% off'') None]
       = Inr [example_offer ''A1'' ''5% off'' 0 0 5]
   \<and> stored (createOffers
        (example_body [example_section_offer ''A1'' example_contributors]
           [example_waiver ''A1'', example_adjustment ''A1'' (Some ''5% off'') None]) [])
       = [example_offer ''A1'' ''5% off'' 0 0 5]
   \<and> (\<exists>r a. flipkartOfferApiResponse
                (example_body [example_section_offer ''A1'' example_contributors]
                   [example_waiver ''A1'', example_adjustment ''A1'' (Some ''5% off'') None]) = Some r
             \<and> a \<in> set (adjustmentList (apiData_of r))
             \<and> \<not> left_out (contributorsMap (apiData_of r)) a
             \<and> to_offer (contributorsMap (apiData_of r)) a
                 = Inr (Some (example_offer ''A1'' ''5% off'' 0 0 5)))"
proof -
  let ?cm = "[''A1'' \<mapsto> example_contributors]"
  let ?w = "example_waiver ''A1''"
  let ?adj = "example_adjustment ''A1'' (Some ''5% off'') None"
  let ?c = "example_offer ''A1'' ''5% off'' 0 0 5"
  let ?body = "example_body [example_section_offer ''A1'' example_contributors] [?w, ?adj]"
  note inst = C3_only_correlated [of ?cm ?w "[]" "[?adj]" ?c "\<lambda>d. d" ?body "[]"]
  have l: "left_out ?cm ?w" by (rule example_waiver_left_out)
  have one: "offersToProcess ?cm [?adj] = Inr [?c]"
    by (simp add: offersToProcess_def example_applicable example_to_offer_plain pct5
        List.map_filter_def)
  from inst l have "offersToProcess ?cm ([] @ ?w # [?adj]) = offersToProcess ?cm ([] @ [?adj])"
    by blast
  with one have two: "offersToProcess ?cm [?w, ?adj] = Inr [?c]" by simp
  have st: "stored (createOffers ?body []) = [?c]"
    by (simp add: createOffers_def example_createOffers two save_new_def newOffersToCreate_def
        Offer_find_def Offer_insertMany_def example_validates example_id Let_def)
  then have "?c \<in> set (stored (createOffers_with (\<lambda>d. d) ?body [])) \<and> ?c \<notin> set [] \<and> ?c \<notin> set ((\<lambda>d. d) [])"
    by (simp add: createOffers_def)
  with inst have "\<exists>r a. flipkartOfferApiResponse ?body = Some r
             \<and> a \<in> set (adjustmentList (apiData_of r))
             \<and> \<not> left_out (contributorsMap (apiData_of r)) a
             \<and> to_offer (contributorsMap (apiData_of r)) a = Inr (Some ?c)"
    by blast
  with l two st show ?thesis by blast
qed

text \<open>
  Claim C5 says that normalization never throws when an optional field is missing. The
  controller at four payloads: without a summary, and without the contributor's
  payment_instrument list, the callback throws a TypeError and the request is answered
  500 with nothing stored; without offer_txn_limits and without the banks list the
  defaults 0 and the empty list are taken.
\<close>

theorem C5_missing_fields_throw:
  "to_offer [''A1'' \<mapsto> example_contributors] (example_adjustment ''A1'' None None)
     = Inl TypeError
   \<and> to_offer [''A1'' \<mapsto> \<lparr> payment_instrument = None, contributors.banks = Some [''IDFC''] \<rparr>]
       (example_adjustment ''A1'' (Some ''5% off'') None)
     = Inl TypeError
   \<and> createOffers
       (example_body
          [example_section_offer ''A1''
             \<lparr> payment_instrument = None, contributors.banks = Some [''IDFC''] \<rparr>]
          [example_adjustment ''A1'' (Some ''5% off'') None]) []
     = \<lparr> sent = \<lparr> status = 500, json = ErrorMessage ''Error creating offers'' TypeError \<rparr>,
         stored = [], calls = [] \<rparr>
   \<and> createOffers
       (example_body [example_section_offer ''A1'' example_contributors]
          [example_adjustment ''A1'' None None]) []
     = \<lparr> sent = \<lparr> status = 500, json = ErrorMessage ''Error creating offers'' TypeError \<rparr>,
         stored = [], calls = [] \<rparr>
   \<and> to_offer [''A1'' \<mapsto> \<lparr> payment_instrument = Some [''CREDIT''], contributors.banks = None \<rparr>]
       (example_adjustment ''A1'' (Some ''5% off'') None)
     = Inr (Some \<lparr> adjustmentId = ''A1'', title = Some ''Bank Offer'', description = ''5% off'',
                    type = Some ''INSTANT_DISCOUNT'',
                    paymentInstruments = [\<lparr> paymentInstrument = ''CREDIT'', banks = [] \<rparr>],
                    minTrxnValue = 0, maxDiscount = 0, discountPercentage = 5 \<rparr>)"
proof -
  have a: "to_offer [''A1'' \<mapsto> example_contributors] (example_adjustment ''A1'' None None)
     = Inl TypeError"
    by (simp add: to_offer_def example_adjustment_def)
  have b: "to_offer [''A1'' \<mapsto> \<lparr> payment_instrument = None, contributors.banks = Some [''IDFC''] \<rparr>]
       (example_adjustment ''A1'' (Some ''5% off'') None) = Inl TypeError"
    by (simp add: to_offer_def example_adjustment_def)
  have c: "createOffers
       (example_body
          [example_section_offer ''A1''
             \<lparr> payment_instrument = None, contributors.banks = Some [''IDFC''] \<rparr>]
          [example_adjustment ''A1'' (Some ''5% off'') None]) []
     = \<lparr> sent = \<lparr> status = 500, json = ErrorMessage ''Error creating offers'' TypeError \<rparr>,
         stored = [], calls = [] \<rparr>"
    by (simp add: createOffers_def example_createOffers offersToProcess_def example_applicable b
        server_error_def)
  have d: "createOffers
       (example_body [example_section_offer ''A1'' example_contributors]
          [example_adjustment ''A1'' None None]) []
     = \<lparr> sent = \<lparr> status = 500, json = ErrorMessage ''Error creating offers'' TypeError \<rparr>,
         stored = [], calls = [] \<rparr>"
    by (simp add: createOffers_def example_createOffers offersToProcess_def example_applicable a
        server_error_def)
  have e: "to_offer [''A1'' \<mapsto> \<lparr> payment_instrument = Some [''CREDIT''], contributors.banks = None \<rparr>]
       (example_adjustment ''A1'' (Some ''5% off'') None)
     = Inr (Some \<lparr> adjustmentId = ''A1'', title = Some ''Bank Offer'', description = ''5% off'',
                    type = Some ''INSTANT_DISCOUNT'',
                    paymentInstruments = [\<lparr> paymentInstrument = ''CREDIT'', banks = [] \<rparr>],
                    minTrxnValue = 0, maxDiscount = 0, discountPercentage = 5 \<rparr>)"
    by (simp add: to_offer_def example_adjustment_def or_zero_def pct5)
  from a b c d e show ?thesis by (intro conjI)
qed




lemma newOffersToCreate_eq:
  "newOffersToCreate cands docs =
     filter (\<lambda>c. adjustmentId c \<notin> adjustmentId ` set docs) cands"
  unfolding newOffersToCreate_def Offer_find_def Let_def
proof (rule filter_cong [OF refl])
  fix c assume c: "c \<in> set cands"
  have "set (map adjustmentId (filter (\<lambda>d. list_all (holds d) [AdjustmentId_in (map adjustmentId cands)]) docs))
        = adjustmentId ` set docs \<inter> adjustmentId ` set cands"
    by (simp add: image_def) blast
  with c show "(adjustmentId c \<notin> set (map adjustmentId (filter (\<lambda>d. list_all (holds d) [AdjustmentId_in (map adjustmentId cands)]) docs)))
        = (adjustmentId c \<notin> adjustmentId ` set docs)"
    by simp
qed

lemma newOffersToCreate_disjoint:
  assumes "adjustmentId ` set cands \<inter> adjustmentId ` set docs = {}"
  shows "newOffersToCreate cands docs = cands"
proof -
  have "\<forall>c \<in> set cands. adjustmentId c \<notin> adjustmentId ` set docs" using assms by blast
  then show ?thesis by (simp add: newOffersToCreate_eq)
qed

lemma newOffersToCreate_present: "newOffersToCreate cands (docs @ cands) = []"
  by (simp add: newOffersToCreate_eq)

lemma insert_ordered_fresh:
  assumes "distinct (map adjustmentId new)" "adjustmentId ` set new \<inter> adjustmentId ` set docs = {}"
  shows "insert_ordered docs new = (Inr (), docs @ new)"
  using assms
proof (induction new arbitrary: docs)
  case Nil
  then show ?case by simp
next
  case (Cons a new)
  have fresh: "adjustmentId a \<notin> adjustmentId ` set docs" using Cons.prems(2) by auto
  have d: "distinct (map adjustmentId new)" using Cons.prems(1) by simp
  have "adjustmentId ` set new \<inter> adjustmentId ` set (docs @ [a]) = {}"
    using Cons.prems by auto
  with d have "insert_ordered (docs @ [a]) new = (Inr (), (docs @ [a]) @ new)" by (rule Cons.IH)
  with fresh show ?case by simp
qed

lemma save_new_fresh:
  assumes "distinct (map adjustmentId cands)" "list_all validates cands"
    "adjustmentId ` set cands \<inter> adjustmentId ` set docs = {}"
  shows "stored (save_new (\<lambda>d. d) cands docs) = docs @ cands"
    "json (sent (save_new (\<lambda>d. d) cands docs)) = Counts (length cands) (length cands)"
proof -
  have n: "newOffersToCreate cands docs = cands" using assms(3) by (rule newOffersToCreate_disjoint)
  have i: "Offer_insertMany cands docs = (Inr (), docs @ cands)"
    using assms by (simp add: Offer_insertMany_def insert_ordered_fresh)
  show "stored (save_new (\<lambda>d. d) cands docs) = docs @ cands"
    by (cases "cands = []") (simp_all add: save_new_def n i Let_def)
  show "json (sent (save_new (\<lambda>d. d) cands docs)) = Counts (length cands) (length cands)"
    by (cases "cands = []") (simp_all add: save_new_def n i Let_def)
qed

lemma save_new_again:
  "stored (save_new (\<lambda>d. d) cands (docs @ cands)) = docs @ cands"
  "json (sent (save_new (\<lambda>d. d) cands (docs @ cands))) = Counts (length cands) 0"
  by (cases "cands = []"; simp add: save_new_def newOffersToCreate_present Let_def)+

text \<open>
  Claim C2 says that the first ingestion of a payload with N candidates reports
  identified = N and created = N. A payload with two adjustments of the same
  adjustment_id yields N = 2 candidates; against the empty store neither is found by
  the read, both go to the insert, the unique index rejects the second, and the first
  call answers 500 with one document stored: it reports no counts.
\<close>

theorem C2_counterexample:
  "offersToProcess [''A1'' \<mapsto> example_contributors]
       [example_adjustment ''A1'' (Some ''5% off'') None,
        example_adjustment ''A1'' (Some ''150% off'') None]
     = Inr [example_offer ''A1'' ''5% off'' 0 0 5, example_offer ''A1'' ''150% off'' 0 0 150]
   \<and> createOffers
       (example_body [example_section_offer ''A1'' example_contributors]
          [example_adjustment ''A1'' (Some ''5% off'') None,
           example_adjustment ''A1'' (Some ''150% off'') None]) []
     = \<lparr> sent = \<lparr> status = 500, json = ErrorMessage ''Error creating offers'' DuplicateKey \<rparr>,
         stored = [example_offer ''A1'' ''5% off'' 0 0 5],
         calls = [Find [AdjustmentId_in [''A1'', ''A1'']],
                  InsertMany [example_offer ''A1'' ''5% off'' 0 0 5,
                              example_offer ''A1'' ''150% off'' 0 0 150]] \<rparr>"
proof -
  have o: "offersToProcess [''A1'' \<mapsto> example_contributors]
       [example_adjustment ''A1'' (Some ''5% off'') None,
        example_adjustment ''A1'' (Some ''150% off'') None]
     = Inr [example_offer ''A1'' ''5% off'' 0 0 5, example_offer ''A1'' ''150% off'' 0 0 150]"
    by (simp add: offersToProcess_def example_applicable example_to_offer_plain pct5 pct150
        List.map_filter_def)
  show ?thesis
    by (simp add: o createOffers_def example_createOffers save_new_def newOffersToCreate_eq
        Offer_insertMany_def example_validates example_id Let_def server_error_def)
qed

text \<open>
  Claim C2, amended. For every payload whose normalization yields N candidates with
  pairwise distinct adjustmentIds, each with the non-empty adjustmentId, title,
  description and type the schema requires, and for every store that holds none of
  these adjustmentIds: with no other request in between, the first ingestion reports
  identified = N and created = N and appends the candidates to the store, the second
  reports identified = N and created = 0, and the second leaves the store as the first
  left it.
\<close>

theorem C2_idempotent:
  assumes "flipkartOfferApiResponse body = Some r"
    and "offersToProcess (contributorsMap (apiData_of r)) (adjustmentList (apiData_of r)) = Inr cands"
    and "distinct (map adjustmentId cands)"
    and "list_all validates cands"
    and "adjustmentId ` set cands \<inter> adjustmentId ` set docs = {}"
  shows "json (sent (createOffers body docs)) = Counts (length cands) (length cands)
     \<and> stored (createOffers body docs) = docs @ cands
     \<and> json (sent (createOffers body (stored (createOffers body docs)))) = Counts (length cands) 0
     \<and> stored (createOffers body (stored (createOffers body docs))) = stored (createOffers body docs)"
proof -
  have c: "createOffers body d = save_new (\<lambda>d. d) cands d" for d
    using assms(1,2) by (simp add: createOffers_def createOffers_with_def)
  show ?thesis
    using save_new_fresh [OF assms(3,4,5)] save_new_again [of cands docs] by (simp add: c)
qed

text \<open>
  The theorem at a payload with one candidate and a store that holds another offer.
\<close>

theorem C2_idempotent_witness:
  "json (sent (createOffers
       (example_body [example_section_offer ''A1'' example_contributors]
          [example_adjustment ''A1'' (Some ''5% off'') None])
       [example_offer ''B7'' ''5% off'' 0 0 5])) = Counts 1 1
   \<and> stored (createOffers
       (example_body [example_section_offer ''A1'' example_contributors]
          [example_adjustment ''A1'' (Some ''5% off'') None])
       [example_offer ''B7'' ''5% off'' 0 0 5])
      = [example_offer ''B7'' ''5% off'' 0 0 5, example_offer ''A1'' ''5% off'' 0 0 5]
   \<and> json (sent (createOffers
       (example_body [example_section_offer ''A1'' example_contributors]
          [example_adjustment ''A1'' (Some ''5% off'') None])
       [example_offer ''B7'' ''5% off'' 0 0 5, example_offer ''A1'' ''5% off'' 0 0 5])) = Counts 1 0
   \<and> stored (createOffers
       (example_body [example_section_offer ''A1'' example_contributors]
          [example_adjustment ''A1'' (Some ''5% off'') None])
       [example_offer ''B7'' ''5% off'' 0 0 5, example_offer ''A1'' ''5% off'' 0 0 5])
      = [example_offer ''B7'' ''5% off'' 0 0 5, example_offer ''A1'' ''5% off'' 0 0 5]"
proof -
  let ?body = "example_body [example_section_offer ''A1'' example_contributors]
          [example_adjustment ''A1'' (Some ''5% off'') None]"
  let ?docs = "[example_offer ''B7'' ''5% off'' 0 0 5]"
  let ?cands = "[example_offer ''A1'' ''5% off'' 0 0 5]"
  obtain r where r: "flipkartOfferApiResponse ?body = Some r" by (simp add: example_body_def)
  have o: "offersToProcess (contributorsMap (apiData_of r)) (adjustmentList (apiData_of r)) = Inr ?cands"
    by (simp add: example_apiData [OF r] example_cmap example_adjustmentList offersToProcess_def
        example_applicable example_to_offer_plain pct5 List.map_filter_def)
  have d: "distinct (map adjustmentId ?cands)" by simp
  have v: "list_all validates ?cands" by (simp add: example_validates)
  have i: "adjustmentId ` set ?cands \<inter> adjustmentId ` set ?docs = {}" by (simp add: example_id)
  note t = C2_idempotent [OF r o d v i]
  from t have s: "stored (createOffers ?body ?docs) = ?docs @ ?cands" by blast
  from t [unfolded s] s show ?thesis by simp
qed

text \<open>
  Claim C6 says that a duplicate-key rejection does not fail the request and that the
  other candidates of the batch are still inserted. A batch with the candidates A1 and
  A2 against the empty store, while another request creates A1 between the read and the
  write: the insert is rejected at A1, the request is answered 500, and A2 is not
  stored.
\<close>

theorem C6_counterexample:
  "createOffers_with (\<lambda>d. d @ [example_offer ''A1'' ''5% off'' 0 0 5])
       (example_body [example_section_offer ''A1'' example_contributors,
                      example_section_offer ''A2'' example_contributors]
          [example_adjustment ''A1'' (Some ''5% off'') None,
           example_adjustment ''A2'' (Some ''150% off'') None]) []
     = \<lparr> sent = \<lparr> status = 500, json = ErrorMessage ''Error creating offers'' DuplicateKey \<rparr>,
         stored = [example_offer ''A1'' ''5% off'' 0 0 5],
         calls = [Find [AdjustmentId_in [''A1'', ''A2'']],
                  InsertMany [example_offer ''A1'' ''5% off'' 0 0 5,
                              example_offer ''A2'' ''150% off'' 0 0 150]] \<rparr>
   \<and> example_offer ''A2'' ''150% off'' 0 0 150 \<notin> set [example_offer ''A1'' ''5% off'' 0 0 5]"
proof -
  let ?cm = "[''A1'' \<mapsto> example_contributors, ''A2'' \<mapsto> example_contributors]"
  have m: "contributorsMap \<lparr> offer_sections = Some [Some \<lparr> offers = Some
             [example_section_offer ''A1'' example_contributors,
              example_section_offer ''A2'' example_contributors] \<rparr>],
           adjustment_list = a, options = b \<rparr> = ?cm" for a b
    by (simp add: contributorsMap_def set_section_def set_offer_def example_section_offer_def)
  have t1: "to_offer ?cm (example_adjustment ''A1'' (Some ''5% off'') None)
      = Inr (Some (example_offer ''A1'' ''5% off'' 0 0 5))"
    by (simp add: to_offer_def example_adjustment_def example_contributors_def example_offer_def
      or_zero_def pct5)
  have t2: "to_offer ?cm (example_adjustment ''A2'' (Some ''150% off'') None)
      = Inr (Some (example_offer ''A2'' ''150% off'' 0 0 150))"
    by (simp add: to_offer_def example_adjustment_def example_contributors_def example_offer_def
      or_zero_def pct150)
  have o: "offersToProcess ?cm
       [example_adjustment ''A1'' (Some ''5% off'') None,
        example_adjustment ''A2'' (Some ''150% off'') None]
     = Inr [example_offer ''A1'' ''5% off'' 0 0 5, example_offer ''A2'' ''150% off'' 0 0 150]"
    by (simp add: offersToProcess_def example_applicable t1 t2 List.map_filter_def)
  have ne: "example_offer ''A2'' ''150% off'' 0 0 150 \<noteq> example_offer ''A1'' ''5% off'' 0 0 5"
    by (simp add: example_offer_def)
  show ?thesis
    using ne
    by (simp add: createOffers_with_def example_response apiData_of_def m example_adjustmentList o
        save_new_def newOffersToCreate_eq Offer_insertMany_def example_validates example_id
        Let_def server_error_def)
qed

text \<open>
  Claim C6, amended. For every ingestion whose insert is rejected with a duplicate-key
  error, the request fails with status 500 and the message of the handler; the
  candidates of the batch before the rejected one stay inserted, the rejected one and
  all candidates after it are not inserted.
\<close>

theorem C6_duplicate_key_fails_request:
  assumes "flipkartOfferApiResponse body = Some r"
    and "offersToProcess (contributorsMap (apiData_of r)) (adjustmentList (apiData_of r)) = Inr cands"
    and "fst (Offer_insertMany (newOffersToCreate cands docs) (env docs)) = Inl DuplicateKey"
  shows "sent (createOffers_with env body docs) =
           \<lparr> status = 500, json = ErrorMessage ''Error creating offers'' DuplicateKey \<rparr>
     \<and> (\<exists>pre d post. newOffersToCreate cands docs = pre @ d # post
           \<and> stored (createOffers_with env body docs) = env docs @ pre
           \<and> adjustmentId d \<in> adjustmentId ` set (env docs @ pre))"
proof -
  let ?new = "newOffersToCreate cands docs"
  obtain docs2 where ins: "Offer_insertMany ?new (env docs) = (Inl DuplicateKey, docs2)"
    using assms(3) by (cases "Offer_insertMany ?new (env docs)") simp
  then have io: "insert_ordered (env docs) ?new = (Inl DuplicateKey, docs2)"
    by (simp add: Offer_insertMany_def split: if_splits)
  from insert_ordered_shape [OF io] obtain pre d post where
    sh: "?new = pre @ d # post" "docs2 = env docs @ pre"
      "adjustmentId d \<in> adjustmentId ` set (env docs @ pre)"
    by auto
  from sh(1) have ne: "?new \<noteq> []" by simp
  then have ce: "cands \<noteq> []" by (auto simp: newOffersToCreate_eq)
  have out: "createOffers_with env body docs =
      \<lparr> sent = server_error ''Error creating offers'' DuplicateKey, stored = docs2,
        calls = [Find [AdjustmentId_in (map adjustmentId cands)], InsertMany ?new] \<rparr>"
    using assms(1,2) ne ce ins by (simp add: createOffers_with_def save_new_def Let_def)
  have "sent (createOffers_with env body docs) =
           \<lparr> status = 500, json = ErrorMessage ''Error creating offers'' DuplicateKey \<rparr>"
    by (simp add: out server_error_def)
  moreover have "\<exists>pre d post. ?new = pre @ d # post
           \<and> stored (createOffers_with env body docs) = env docs @ pre
           \<and> adjustmentId d \<in> adjustmentId ` set (env docs @ pre)"
    using sh by (simp only: out outcome.simps) blast
  ultimately show ?thesis by (rule conjI)
qed

section \<open>Properties of the numbers and of the discount\<close>

lemma ws_prefix_none:
  "list_all (\<lambda>w. take (length w) s \<noteq> w) ws \<Longrightarrow> ws_prefix ws s = 0"
  by (induction ws) (auto simp: ws_prefix_def)

lemma strip_left_id: "ws_prefix ws s = 0 \<Longrightarrow> strip_left ws s = s"
  by (simp add: strip_left.simps)

lemma trim_id:
  assumes "list_all (\<lambda>w. take (length w) s \<noteq> w) white_space"
    and "list_all (\<lambda>w. take (length w) (rev s) \<noteq> w) (map rev white_space)"
  shows "trim s = s"
  using assms by (simp add: trim_def ws_prefix_none strip_left_id)

lemma Number_decimal:
  assumes "trim s = s" "s \<noteq> []" "list_all is_digit s"
  shows "Number (Some s) = Num (real (digits_val s))"
proof -
  obtain c r where s: "s = c # r" using assms(2) by (cases s) auto
  have dc: "is_digit c" using assms(3) s by simp
  then have c: "c \<noteq> CHR ''+''" "c \<noteq> CHR ''-''" "c \<noteq> CHR ''.''"
    by (auto simp: is_digit_def)
  have nd: "non_decimal s = None"
  proof (cases r)
    case Nil
    with s show ?thesis by (simp add: non_decimal_def)
  next
    case (Cons x r')
    have "is_digit x" using assms(3) s Cons by simp
    then have "x \<notin> set ''xX''" "x \<notin> set ''oO''" "x \<notin> set ''bB''"
      by (auto simp: is_digit_def)
    with s Cons show ?thesis by (simp add: non_decimal_def)
  qed
  have tw: "takeWhile is_digit s = s" "dropWhile is_digit s = []"
    using assms(3) by (simp_all add: list_all_iff)
  have inf: "s \<noteq> ''Infinity''" using dc s by (auto simp: is_digit_def)
  have u: "unsigned_decimal s = Num (real (digits_val s))"
    using assms(2) inf
    by (simp add: unsigned_decimal_def tw exponent_part_def scale10_def digits_val_def)
  have "(case s of [] \<Rightarrow> Num 0
         | c # r \<Rightarrow> if c = CHR ''+'' then unsigned_decimal r
                    else if c = CHR ''-'' then js_neg (unsigned_decimal r)
                    else unsigned_decimal s) = unsigned_decimal s"
    using c by (simp add: s)
  then have "string_to_number s = unsigned_decimal s"
    by (simp add: string_to_number_def assms(1) assms(2) nd)
  with u show ?thesis by (simp add: Number_def)
qed

lemma Number_negative:
  assumes "trim (CHR ''-'' # s) = CHR ''-'' # s" "s \<noteq> []" "list_all is_digit s"
  shows "Number (Some (CHR ''-'' # s)) = Num (- real (digits_val s))"
proof -
  have nd: "non_decimal (CHR ''-'' # s) = None"
    by (cases s) (simp_all add: non_decimal_def)
  have tw: "takeWhile is_digit s = s" "dropWhile is_digit s = []"
    using assms(3) by (simp_all add: list_all_iff)
  obtain c r where s: "s = c # r" using assms(2) by (cases s) auto
  have dc: "is_digit c" using assms(3) s by simp
  have inf: "s \<noteq> ''Infinity''" using dc s by (auto simp: is_digit_def)
  have u: "unsigned_decimal s = Num (real (digits_val s))"
    using assms(2) inf
    by (simp add: unsigned_decimal_def tw exponent_part_def scale10_def digits_val_def)
  show ?thesis
    by (simp add: Number_def string_to_number_def assms(1) nd u)
qed

lemma Number_empty: "Number (Some []) = Num 0"
  by (simp add: Number_def string_to_number_def trim_def white_space_def ws_prefix_def
      strip_left.simps)

lemma Number_0: "Number (Some ''0'') = Num 0"
proof -
  have "trim ''0'' = ''0''" by (rule trim_id) (simp_all add: white_space_def)
  then have "Number (Some ''0'') = Num (real (digits_val ''0''))"
    by (rule Number_decimal) (simp_all add: is_digit_def)
  then show ?thesis by (simp add: digits_val_def digit_val_def)
qed



lemma Number_m5: "Number (Some ''-5'') = Num (- 5)"
proof -
  have "trim ''-5'' = ''-5''" by (rule trim_id) (simp_all add: white_space_def)
  then have "Number (Some ''-5'') = Num (- real (digits_val ''5''))"
    by (rule Number_negative) (simp_all add: is_digit_def)
  then show ?thesis by (simp add: digits_val_def digit_val_def)
qed


lemma Number_abc: "Number (Some ''abc'') = NaN"
proof -
  have "trim ''abc'' = ''abc''" by (rule trim_id) (simp_all add: white_space_def)
  then show ?thesis
    by (simp add: Number_def string_to_number_def non_decimal_def unsigned_decimal_def is_digit_def)
qed

lemma currentDiscount_Num: "currentDiscount (Num a) d = Num (spec_discount a d)"
  by (simp add: currentDiscount_def spec_discount_def Let_def)

lemma find_selected:
  assumes "b \<noteq> []"
  shows "Offer_find
           ([PaymentInstruments_banks (case Some b of None \<Rightarrow> [] | Some b \<Rightarrow> b),
             MinTrxnValue_lte (Num a)]
            @ (if truthy p
               then [PaymentInstruments_paymentInstrument (case p of None \<Rightarrow> [] | Some i \<Rightarrow> i)]
               else []))
           docs
         = spec_selected a b p docs"
  unfolding Offer_find_def spec_selected_def
  by (rule filter_cong [OF refl]) (auto simp: truthy_def split: option.splits)

lemma foldl_Math_max:
  "foldl (\<lambda>acc d. Math_max acc (Num (f d))) (Num m) xs
     = Num (foldl (\<lambda>acc d. max acc (f d)) m xs)"
proof (induction xs arbitrary: m)
  case Nil
  then show ?case by simp
next
  case (Cons x xs)
  have "Math_max (Num m) (Num (f x)) = Num (max m (f x))"
    by (simp add: Math_max_def isNaN_def max_def)
  then show ?case by (simp add: Cons.IH)
qed

lemma foldl_max_Max:
  "foldl (\<lambda>acc d. max acc (f d)) (m :: real) xs = Max (insert m (f ` set xs))"
proof (induction xs arbitrary: m)
  case Nil
  then show ?case by simp
next
  case (Cons x xs)
  have "Max (insert m (f ` set (x # xs))) = Max (insert (max m (f x)) (f ` set xs))"
  proof (cases "xs = []")
    case True
    then show ?thesis by (simp add: max.commute)
  next
    case False
    then have ne: "f ` set xs \<noteq> {}" by simp
    have fin: "finite (f ` set xs)" by simp
    have "Max (insert m (insert (f x) (f ` set xs))) = max m (max (f x) (Max (f ` set xs)))"
      using fin ne by simp
    also have "\<dots> = max (max m (f x)) (Max (f ` set xs))" by (simp add: max.assoc)
    also have "\<dots> = Max (insert (max m (f x)) (f ` set xs))" using fin ne by simp
    finally show ?thesis by simp
  qed
  with Cons.IH [of "max m (f x)"] show ?case by simp
qed

lemma highest_Num:
  assumes "Number (amountToPay q) = Num a" "bankName q = Some b" "b \<noteq> []"
  shows "getHighestDiscount q docs =
           \<lparr> status = 200,
             json = HighestDiscountAmount
               (Num (Max (insert 0 (spec_discount a `
                   set (spec_selected a b (query_params.paymentInstrument q) docs))))) \<rparr>"
proof -
  have t: "truthy (bankName q)" using assms(2,3) by (simp add: truthy_def)
  have f: "Offer_find
           ([PaymentInstruments_banks (case bankName q of None \<Rightarrow> [] | Some b \<Rightarrow> b),
             MinTrxnValue_lte (Num a)]
            @ (if truthy (query_params.paymentInstrument q)
               then [PaymentInstruments_paymentInstrument
                       (case query_params.paymentInstrument q of None \<Rightarrow> [] | Some i \<Rightarrow> i)]
               else []))
           docs
         = spec_selected a b (query_params.paymentInstrument q) docs"
    using find_selected [OF assms(3), of a "query_params.paymentInstrument q" docs]
    by (simp add: assms(2))
  show ?thesis
    unfolding getHighestDiscount_def Let_def assms(1) f
    by (simp add: t isNaN_def currentDiscount_Num foldl_Math_max foldl_max_Max)
qed

lemma example_selected:
  "spec_selected a ''IDFC'' p [example_offer k s mn mx pct] =
     (if mn \<le> a \<and> (case p of None \<Rightarrow> True | Some i \<Rightarrow> i = [] \<or> i = ''CREDIT'')
      then [example_offer k s mn mx pct] else [])"
  by (auto simp: spec_selected_def example_offer_def split: option.splits)





text \<open>
  Claim C10. The discount query answers 400 exactly when \<open>Number(amountToPay)\<close> is
  NaN or bankName is absent or empty. The empty string reads as 0, \<open>0\<close> as 0 and
  \<open>-5\<close> as -5, and every amount that reads as a finite number, zero and negative
  ones too, is scored like any other: status 200 with the maximum of 0 and the
  per-offer discounts of the offers selected.
\<close>

theorem C10_validation:
  "(status (getHighestDiscount q docs) = 400) =
      (isNaN (Number (amountToPay q)) \<or> bankName q = None \<or> bankName q = Some [])
   \<and> Number (Some []) = Num 0
   \<and> Number (Some ''0'') = Num 0
   \<and> Number (Some ''-5'') = Num (- 5)
   \<and> (Number (amountToPay q) = Num a \<and> bankName q = Some b \<and> b \<noteq> [] \<longrightarrow>
        getHighestDiscount q docs =
          \<lparr> status = 200,
            json = HighestDiscountAmount
              (Num (Max (insert 0 (spec_discount a `
                  set (spec_selected a b (query_params.paymentInstrument q) docs))))) \<rparr>)"
proof (intro conjI impI)
  have t: "(\<not> truthy (bankName q)) = (bankName q = None \<or> bankName q = Some [])"
    by (simp add: truthy_def split: option.splits)
  show "(status (getHighestDiscount q docs) = 400) =
      (isNaN (Number (amountToPay q)) \<or> bankName q = None \<or> bankName q = Some [])"
    unfolding t [symmetric] by (simp add: getHighestDiscount_def Let_def)
  show "Number (Some []) = Num 0" by (rule Number_empty)
  show "Number (Some ''0'') = Num 0" by (rule Number_0)
  show "Number (Some ''-5'') = Num (- 5)" by (rule Number_m5)
  assume "Number (amountToPay q) = Num a \<and> bankName q = Some b \<and> b \<noteq> []"
  then show "getHighestDiscount q docs =
          \<lparr> status = 200,
            json = HighestDiscountAmount
              (Num (Max (insert 0 (spec_discount a `
                  set (spec_selected a b (query_params.paymentInstrument q) docs))))) \<rparr>"
    by (simp add: highest_Num)
qed

text \<open>
  The theorem at four queries against a store with one flat offer of 750: the empty
  amount is scored as 0, \<open>-5\<close> is scored and selects nothing, \<open>abc\<close> and an empty
  bankName are answered 400.
\<close>

theorem C10_validation_witness:
  "getHighestDiscount
      \<lparr> amountToPay = Some [], bankName = Some ''IDFC'', paymentInstrument = None \<rparr>
      [example_offer ''A1'' ''5% off'' 0 750 0]
     = \<lparr> status = 200, json = HighestDiscountAmount (Num 750) \<rparr>
   \<and> getHighestDiscount
      \<lparr> amountToPay = Some ''-5'', bankName = Some ''IDFC'', paymentInstrument = None \<rparr>
      [example_offer ''A1'' ''5% off'' 0 750 0]
     = \<lparr> status = 200, json = HighestDiscountAmount (Num 0) \<rparr>
   \<and> status (getHighestDiscount
      \<lparr> amountToPay = Some ''abc'', bankName = Some ''IDFC'', paymentInstrument = None \<rparr>
      [example_offer ''A1'' ''5% off'' 0 750 0]) = 400
   \<and> status (getHighestDiscount
      \<lparr> amountToPay = Some ''0'', bankName = Some [], paymentInstrument = None \<rparr>
      [example_offer ''A1'' ''5% off'' 0 750 0]) = 400"
proof -
  let ?docs = "[example_offer ''A1'' ''5% off'' 0 750 0]"
  let ?q1 = "\<lparr> amountToPay = Some [], bankName = Some ''IDFC'', paymentInstrument = None \<rparr>"
  let ?q2 = "\<lparr> amountToPay = Some ''-5'', bankName = Some ''IDFC'', paymentInstrument = None \<rparr>"
  let ?q3 = "\<lparr> amountToPay = Some ''abc'', bankName = Some ''IDFC'', paymentInstrument = None \<rparr>"
  let ?q4 = "\<lparr> amountToPay = Some ''0'', bankName = Some [], paymentInstrument = None \<rparr>"
  have d: "spec_discount a (example_offer ''A1'' ''5% off'' 0 750 0) = 750" for a
    by (simp add: spec_discount_def example_offer_def)
  have r1: "getHighestDiscount ?q1 ?docs = \<lparr> status = 200, json = HighestDiscountAmount (Num 750) \<rparr>"
    using C10_validation [of ?q1 ?docs 0 "''IDFC''"]
    by (simp add: example_selected d)
  have r2: "getHighestDiscount ?q2 ?docs = \<lparr> status = 200, json = HighestDiscountAmount (Num 0) \<rparr>"
    using C10_validation [of ?q2 ?docs "- 5" "''IDFC''"]
    by (simp add: example_selected d)
  have r3: "status (getHighestDiscount ?q3 ?docs) = 400"
    using C10_validation [of ?q3 ?docs 0 "''IDFC''"] by (simp add: Number_abc isNaN_def)
  have r4: "status (getHighestDiscount ?q4 ?docs) = 400"
    using C10_validation [of ?q4 ?docs 0 "[]"] by simp
  from r1 r2 r3 r4 show ?thesis by (intro conjI)
qed

text \<open>
  The theorem at a batch with the one candidate A1, which another request creates
  between the read and the write.
\<close>

theorem C6_duplicate_key_fails_request_witness:
  "sent (createOffers_with (\<lambda>d. d @ [example_offer ''A1'' ''5% off'' 0 0 5])
       (example_body [example_section_offer ''A1'' example_contributors]
          [example_adjustment ''A1'' (Some ''5% off'') None]) [])
     = \<lparr> status = 500, json = ErrorMessage ''Error creating offers'' DuplicateKey \<rparr>
   \<and> (\<exists>pre d post.
         newOffersToCreate [example_offer ''A1'' ''5% off'' 0 0 5] [] = pre @ d # post
         \<and> stored (createOffers_with (\<lambda>d. d @ [example_offer ''A1'' ''5% off'' 0 0 5])
              (example_body [example_section_offer ''A1'' example_contributors]
                 [example_adjustment ''A1'' (Some ''5% off'') None]) [])
             = [example_offer ''A1'' ''5% off'' 0 0 5] @ pre
         \<and> adjustmentId d \<in> adjustmentId ` set ([example_offer ''A1'' ''5% off'' 0 0 5] @ pre))"
proof -
  let ?body = "example_body [example_section_offer ''A1'' example_contributors]
          [example_adjustment ''A1'' (Some ''5% off'') None]"
  let ?c = "example_offer ''A1'' ''5% off'' 0 0 5"
  obtain r where r: "flipkartOfferApiResponse ?body = Some r" by (simp add: example_body_def)
  have o: "offersToProcess (contributorsMap (apiData_of r)) (adjustmentList (apiData_of r)) = Inr [?c]"
    by (simp add: example_apiData [OF r] example_cmap example_adjustmentList offersToProcess_def
        example_applicable example_to_offer_plain pct5 List.map_filter_def)
  have h: "fst (Offer_insertMany (newOffersToCreate [?c] []) ((\<lambda>d. d @ [?c]) [])) = Inl DuplicateKey"
    by (simp add: newOffersToCreate_eq Offer_insertMany_def example_validates)
  show ?thesis
    using C6_duplicate_key_fails_request
      [where env = "\<lambda>d. d @ [?c]" and docs = "[]" and body = ?body and r = r and cands = "[?c]"]
      r o h
    by simp
qed



end
